theory Spec2Isabelle
  imports
    Complex_Main
    "HOL-Library.Multiset"
    "HOL-Library.Char_ord"
    "HOL-Library.List_Lexorder"
    "HOL-Library.Product_Lexorder"
begin

section \<open>Errors\<close>

text \<open>
  Every exception the modelled code can raise is a value.  The Python built-ins keep
  their names.  \<open>UnknownFunctionalGroupError\<close> is the error kind the specification
  names for a registry miss; no statement of the sources raises it.
  \<open>ConstructionError\<close> carries its message and the exception it was raised from.
\<close>

datatype error =
    KeyError string
  | IndexError
  | ValueError
  | TypeError
  | AttributeError
  | StopIteration
  | AssertionError
  | UnknownFunctionalGroupError string
  | TopologyError string
  | ConstructionError string error

section \<open>The reaction key (class \<open>_ReactionKey\<close>)\<close>

text \<open>
  \<open>collections.Counter\<close> over an iterable: a dictionary in first-insertion order whose
  value for a key is the number of times the key was seen.
\<close>

fun counter_add :: "'a \<Rightarrow> ('a \<times> nat) list \<Rightarrow> ('a \<times> nat) list" where
  "counter_add k [] = [(k, 1)]"
| "counter_add k ((k', n) # c) =
     (if k = k' then (k', n + 1) # c else (k', n) # counter_add k c)"

definition Counter :: "'a list \<Rightarrow> ('a \<times> nat) list" where
  "Counter xs = fold counter_add xs []"

text \<open>
  \<open>self._key = tuple(sorted((key, value) for key, value in c.items()))\<close>.  Tuples
  compare lexicographically and strings by code point, which is the order of
  \<open>Product_Lexorder\<close>, \<open>List_Lexorder\<close> and \<open>Char_ord\<close>.  \<open>__eq__\<close> compares the
  \<open>_key\<close> fields, so a key is modelled by its \<open>_key\<close>.
\<close>

type_synonym reaction_key = "(string \<times> nat) list"

definition ReactionKey :: "string list \<Rightarrow> reaction_key" where
  "ReactionKey fg_names = sort (Counter fg_names)"

text \<open>Proof vocabulary for \<open>Counter\<close>: the count a dictionary holds for a key.\<close>

definition cnt :: "('a \<times> nat) list \<Rightarrow> 'a \<Rightarrow> nat" where
  "cnt c k = (case map_of c k of None \<Rightarrow> 0 | Some n \<Rightarrow> n)"

definition counter_inv :: "('a \<times> nat) list \<Rightarrow> bool" where
  "counter_inv c \<longleftrightarrow> distinct (map fst c) \<and> (\<forall>p \<in> set c. 0 < snd p)"

section \<open>Atoms, bonds, functional groups\<close>

record atom =
  atom_id :: int
  atomic_number :: nat

text \<open>
  Modelled from the spec: the module \<open>elements\<close> is not among the sources.  \<open>elements.C(i)\<close>
  and \<open>elements.H(i)\<close> build a carbon and a hydrogen atom with id \<open>i\<close>.
\<close>

definition C :: "int \<Rightarrow> atom" where
  "C i = \<lparr>atom_id = i, atomic_number = 6\<rparr>"

definition H :: "int \<Rightarrow> atom" where
  "H i = \<lparr>atom_id = i, atomic_number = 1\<rparr>"

text \<open>
  Modelled from the spec: the module \<open>bonds\<close> is not among the sources.  A bond is an
  ordered pair of ends and an integer order; a periodic bond carries a direction as
  well.  The constructor stores the arguments it is given.  Python is untyped: the
  default reaction passes \<open>Atom\<close> objects (\<open>fg1.bonders[0]\<close>), while
  \<open>_diol_with_dihalogen\<close> passes the integers produced by \<open>get_bonder_ids\<close>, so an end is
  either.
\<close>

datatype pyobj = AtomObj atom | IntObj int

datatype bond =
    Bond (atom1: pyobj) (atom2: pyobj) (bond_order: int)
  | PeriodicBond (atom1: pyobj) (atom2: pyobj) (bond_order: int) (direction: "int list")

datatype Match = Match (smarts: string) (match_n: nat)

datatype FGType =
  FGType (name: string) (fg_smarts: string) (bonder_smarts: "Match list")
    (del_smarts: "Match list")

record functional_group =
  atoms :: "atom list"
  bonders :: "atom list"
  deleters :: "atom list"
  fg_type :: FGType

definition get_atom_ids :: "functional_group \<Rightarrow> int list" where
  "get_atom_ids fg = map atom_id (atoms fg)"

definition get_bonder_ids :: "functional_group \<Rightarrow> int list" where
  "get_bonder_ids fg = map atom_id (bonders fg)"

definition get_deleter_ids :: "functional_group \<Rightarrow> int list" where
  "get_deleter_ids fg = map atom_id (deleters fg)"

section \<open>The reactor (class \<open>Reactor\<close>)\<close>

text \<open>
  Positions are rows of three coordinates.  The source computes them with numpy floats;
  the model uses the reals, so rounding is not modelled.
\<close>

type_synonym vec = "real \<times> real \<times> real"

definition vadd :: "vec \<Rightarrow> vec \<Rightarrow> vec" where
  "vadd a b = (case a of (a1, a2, a3) \<Rightarrow> case b of (b1, b2, b3) \<Rightarrow> (a1 + b1, a2 + b2, a3 + b3))"

definition vhalf :: "vec \<Rightarrow> vec" where
  "vhalf a = (case a of (a1, a2, a3) \<Rightarrow> (a1 / 2, a2 / 2, a3 / 2))"

text \<open>
  Functional groups are objects that \<open>add_reaction\<close> mutates in place, and the same
  object may be passed twice, so they live in a store and are passed by reference.
  The state is the reactor together with the molecule it edits (\<open>self._mol\<close>) and that
  store.  \<open>_deleter_bonds\<close> is initialised and never read or written again; it is left
  out.
\<close>

type_synonym fgref = nat

record state =
  bonds_made :: int
  mol_atoms :: "atom list"
  mol_bonds :: "bond list"
  position_matrix :: "vec list"
  deleter_ids :: "int set"
  fg_heap :: "fgref \<Rightarrow> functional_group"

text \<open>
  The methods \<open>get_atom_distance\<close> and \<open>get_atom_coords\<close> belong to the class
  \<open>Molecule\<close>, which is not among the sources; they are parameters of the model.
\<close>

record api =
  get_atom_distance :: "state \<Rightarrow> int \<Rightarrow> int \<Rightarrow> real"
  get_atom_coords :: "state \<Rightarrow> atom list \<Rightarrow> vec list"

text \<open>\<open>Reactor.__init__(mol)\<close>.\<close>

definition Reactor :: "atom list \<Rightarrow> bond list \<Rightarrow> vec list \<Rightarrow> (fgref \<Rightarrow> functional_group) \<Rightarrow> state" where
  "Reactor as bs pm h =
     \<lparr>bonds_made = 0, mol_atoms = as, mol_bonds = bs, position_matrix = pm,
      deleter_ids = {}, fg_heap = h\<rparr>"

definition bond_orders :: "(reaction_key \<times> int) list" where
  "bond_orders =
     [(ReactionKey [''amine'', ''aldehyde''], 2),
      (ReactionKey [''amide'', ''aldehyde''], 2),
      (ReactionKey [''nitrile'', ''aldehyde''], 2),
      (ReactionKey [''amide'', ''amine''], 2),
      (ReactionKey [''terminal_alkene'', ''terminal_alkene''], 2),
      (ReactionKey [''alkyne2'', ''alkyne2''], 3)]"

text \<open>\<open>self._bond_orders.get(reaction_key, 1)\<close>.\<close>

definition bond_order_of :: "reaction_key \<Rightarrow> int" where
  "bond_order_of k = (case map_of bond_orders k of None \<Rightarrow> 1 | Some b \<Rightarrow> b)"

text \<open>
  One pass of the loop body
  \<^verbatim>\<open>
  self._deleter_ids.update(fg.get_deleter_ids())
  fg.atoms = tuple(a for a in fg.atoms if a.id not in self._deleter_ids)
  fg.deleters = ()
  \<close>
\<close>

definition stage_fg :: "fgref \<Rightarrow> state \<Rightarrow> state" where
  "stage_fg r s =
     (let fg = fg_heap s r;
          d = deleter_ids s \<union> set (get_deleter_ids fg);
          fg' = fg\<lparr>atoms := filter (\<lambda>a. atom_id a \<notin> d) (atoms fg), deleters := []\<rparr>
      in s\<lparr>deleter_ids := d, fg_heap := (fg_heap s)(r := fg')\<rparr>)"

text \<open>
  The loop body of \<open>add_periodic_reaction\<close>, which does not touch \<open>fg.atoms\<close>:
  \<^verbatim>\<open>
  self._deleter_ids.update(fg.get_deleter_ids())
  fg.deleters = ()
  \<close>
\<close>

definition stage_fg_periodic :: "fgref \<Rightarrow> state \<Rightarrow> state" where
  "stage_fg_periodic r s =
     (let fg = fg_heap s r;
          d = deleter_ids s \<union> set (get_deleter_ids fg);
          fg' = fg\<lparr>deleters := []\<rparr>
      in s\<lparr>deleter_ids := d, fg_heap := (fg_heap s)(r := fg')\<rparr>)"

subsection \<open>\<open>_diol_with_dihalogen\<close>\<close>

text \<open>The nested loop that fills \<open>distances\<close> with \<open>(d, carbon, oxygen)\<close>.\<close>

definition distances_of :: "api \<Rightarrow> state \<Rightarrow> int list \<Rightarrow> int list \<Rightarrow> (real \<times> int \<times> int) list" where
  "distances_of m s carbons oxygens =
     concat (map (\<lambda>carbon. map (\<lambda>oxygen. (get_atom_distance m s carbon oxygen, carbon, oxygen))
                  oxygens) carbons)"

text \<open>
  The deduplication loop, with its three accumulators:
  \<^verbatim>\<open>
  for d, c, o in distances:
      if c not in seen_c and o not in seen_o:
          deduped_pairs.append((c, o)); seen_c.add(c); seen_o.add(o)
  \<close>
\<close>

fun dedupe :: "(real \<times> int \<times> int) list \<Rightarrow> (int \<times> int) list \<Rightarrow> int set \<Rightarrow> int set \<Rightarrow> (int \<times> int) list" where
  "dedupe [] deduped_pairs seen_c seen_o = deduped_pairs"
| "dedupe ((d, c, ox) # distances) deduped_pairs seen_c seen_o =
     (if c \<notin> seen_c \<and> ox \<notin> seen_o
      then dedupe distances (deduped_pairs @ [(c, ox)]) (insert c seen_c) (insert ox seen_o)
      else dedupe distances deduped_pairs seen_c seen_o)"

definition deduped_pairs_of :: "api \<Rightarrow> state \<Rightarrow> fgref \<Rightarrow> fgref \<Rightarrow> (int \<times> int) list" where
  "deduped_pairs_of m s fg1 fg2 =
     (let diol = (if name (fg_type (fg_heap s fg1)) = ''diol'' then fg1 else fg2);
          dihalogen = (if diol = fg1 then fg2 else fg1);
          distances = sort (distances_of m s (get_bonder_ids (fg_heap s dihalogen))
                              (get_bonder_ids (fg_heap s diol)))
      in dedupe distances [] {} {})"

text \<open>
  The unpacking \<open>(c1, o1), (c2, o2), *_ = deduped_pairs\<close> raises \<open>ValueError\<close> on fewer
  than two pairs; the \<open>assert\<close> is a branch of its own.  The argument \<open>dihalogen\<close> is
  overwritten before it is read.
\<close>

definition diol_with_dihalogen :: "api \<Rightarrow> fgref \<Rightarrow> fgref \<Rightarrow> string \<Rightarrow> state \<Rightarrow> error + state" where
  "diol_with_dihalogen m fg1 fg2 dihalogen s =
     (case deduped_pairs_of m s fg1 fg2 of
        (c1, o1) # (c2, o2) # _ \<Rightarrow>
          if c1 \<noteq> c2 \<and> o1 \<noteq> o2
          then Inr (s\<lparr>mol_bonds := mol_bonds s @ [Bond (IntObj c1) (IntObj o1) 1,
                                                   Bond (IntObj c2) (IntObj o2) 1],
                      bonds_made := bonds_made s + 2\<rparr>)
          else Inl AssertionError
      | _ \<Rightarrow> Inl ValueError)"

subsection \<open>\<open>_boronic_acid_with_diol\<close>\<close>

definition boronic_acid_with_diol :: "fgref \<Rightarrow> fgref \<Rightarrow> state \<Rightarrow> error + state" where
  "boronic_acid_with_diol fg1 fg2 s =
     (let s1 = stage_fg fg2 (stage_fg fg1 s);
          boron = (if name (fg_type (fg_heap s1 fg1)) = ''boronic_acid'' then fg1 else fg2);
          diol = (if boron = fg1 then fg2 else fg1)
      in case bonders (fg_heap s1 boron) of
           [] \<Rightarrow> Inl IndexError
         | boron_atom # _ \<Rightarrow>
             (case bonders (fg_heap s1 diol) of
                d0 # d1 # _ \<Rightarrow>
                  Inr (s1\<lparr>mol_bonds := mol_bonds s1 @ [Bond (AtomObj boron_atom) (AtomObj d0) 1,
                                                         Bond (AtomObj boron_atom) (AtomObj d1) 1],
                          bonds_made := bonds_made s1 + 2\<rparr>)
              | _ \<Rightarrow> Inl IndexError))"

subsection \<open>\<open>_ring_amine_with_ring_amine\<close>\<close>

text \<open>\<open>next(a for a in bonders if a.atomic_number == z)\<close>.\<close>

definition next_with_number :: "nat \<Rightarrow> atom list \<Rightarrow> error + atom" where
  "next_with_number z as =
     (case filter (\<lambda>a. atomic_number a = z) as of [] \<Rightarrow> Inl StopIteration | a # _ \<Rightarrow> Inr a)"

text \<open>
  The repeated block
  \<^verbatim>\<open>
  x = elements.E(len(self._mol.atoms))
  self._mol.atoms.append(x)
  self._mol._position_matrix.append(x_coord)
  \<close>
\<close>

definition append_atom :: "(int \<Rightarrow> atom) \<Rightarrow> vec \<Rightarrow> state \<Rightarrow> atom \<times> state" where
  "append_atom el coord s =
     (let x = el (int (length (mol_atoms s)))
      in (x, s\<lparr>mol_atoms := mol_atoms s @ [x],
               position_matrix := position_matrix s @ [coord]\<rparr>))"

definition ring_amine_with_ring_amine :: "api \<Rightarrow> fgref \<Rightarrow> fgref \<Rightarrow> state \<Rightarrow> error + state" where
  "ring_amine_with_ring_amine m fg1 fg2 s =
     (case next_with_number 6 (bonders (fg_heap s fg1)) of Inl e \<Rightarrow> Inl e | Inr c1 \<Rightarrow>
     (case next_with_number 7 (bonders (fg_heap s fg1)) of Inl e \<Rightarrow> Inl e | Inr n1 \<Rightarrow>
     (case next_with_number 6 (bonders (fg_heap s fg2)) of Inl e \<Rightarrow> Inl e | Inr c2 \<Rightarrow>
     (case next_with_number 7 (bonders (fg_heap s fg2)) of Inl e \<Rightarrow> Inl e | Inr n2 \<Rightarrow>
     (case get_atom_coords m s [c1, n1, c2, n2] of
        [n1_coord, n2_coord, c1_coord, c2_coord] \<Rightarrow>
          (let n_joiner_coord = vhalf (vadd n1_coord n2_coord);
               (n_joiner, s) = append_atom C n_joiner_coord s;
               (nh1, s) = append_atom H (vadd n_joiner_coord (0, 0, 1)) s;
               (nh2, s) = append_atom H (vadd n_joiner_coord (0, 0, -1)) s;
               nc_joiner1_coord = vhalf (vadd c1_coord n2_coord);
               (nc_joiner1, s) = append_atom C nc_joiner1_coord s;
               (nc1h1, s) = append_atom H (vadd nc_joiner1_coord (0, 0, 1)) s;
               (nc1h2, s) = append_atom H (vadd nc_joiner1_coord (0, 0, -1)) s;
               nc_joiner2_coord = vhalf (vadd c2_coord n1_coord);
               (nc_joiner2, s) = append_atom C nc_joiner2_coord s;
               (nc2h1, s) = append_atom H (vadd nc_joiner2_coord (0, 0, 1)) s;
               (nc2h2, s) = append_atom H (vadd nc_joiner2_coord (0, 0, -1)) s
           in Inr (s\<lparr>mol_bonds := mol_bonds s @
                        [Bond (AtomObj n1) (AtomObj n_joiner) 1,
                         Bond (AtomObj n2) (AtomObj n_joiner) 1,
                         Bond (AtomObj n_joiner) (AtomObj nh1) 1,
                         Bond (AtomObj n_joiner) (AtomObj nh2) 1,
                         Bond (AtomObj c1) (AtomObj nc_joiner1) 1,
                         Bond (AtomObj n2) (AtomObj nc_joiner1) 1,
                         Bond (AtomObj nc_joiner1) (AtomObj nc1h1) 1,
                         Bond (AtomObj nc_joiner1) (AtomObj nc1h2) 1,
                         Bond (AtomObj c2) (AtomObj nc_joiner2) 1,
                         Bond (AtomObj n1) (AtomObj nc_joiner2) 1,
                         Bond (AtomObj nc_joiner2) (AtomObj nc2h1) 1,
                         Bond (AtomObj nc_joiner2) (AtomObj nc2h2) 1],
                      bonds_made := bonds_made s + 12\<rparr>))
      | _ \<Rightarrow> Inl ValueError)))))"

subsection \<open>The registries and \<open>add_reaction\<close>\<close>

datatype custom_reaction =
    Boronic_acid_with_diol
  | Diol_with_dihalogen string
  | Ring_amine_with_ring_amine

definition custom_reactions :: "(reaction_key \<times> custom_reaction) list" where
  "custom_reactions =
     [(ReactionKey [''boronic_acid'', ''diol''], Boronic_acid_with_diol),
      (ReactionKey [''diol'', ''difluorene''], Diol_with_dihalogen ''difluorene''),
      (ReactionKey [''diol'', ''dibromine''], Diol_with_dihalogen ''dibromine''),
      (ReactionKey [''ring_amine'', ''ring_amine''], Ring_amine_with_ring_amine)]"

text \<open>
  \<open>self._custom_reactions[reaction_key](self, *fgs)\<close>: every registered procedure takes
  two functional groups; another number of arguments is a \<open>TypeError\<close> of the call.
\<close>

definition call_custom :: "api \<Rightarrow> custom_reaction \<Rightarrow> fgref list \<Rightarrow> state \<Rightarrow> error + state" where
  "call_custom m rxn fgs s =
     (case fgs of
        [fg1, fg2] \<Rightarrow>
          (case rxn of
             Boronic_acid_with_diol \<Rightarrow> boronic_acid_with_diol fg1 fg2 s
           | Diol_with_dihalogen dihalogen \<Rightarrow> diol_with_dihalogen m fg1 fg2 dihalogen s
           | Ring_amine_with_ring_amine \<Rightarrow> ring_amine_with_ring_amine m fg1 fg2 s)
      | _ \<Rightarrow> Inl TypeError)"

definition names_of :: "state \<Rightarrow> fgref list \<Rightarrow> string list" where
  "names_of s fgs = map (\<lambda>fg. name (fg_type (fg_heap s fg))) fgs"

definition add_reaction :: "api \<Rightarrow> fgref list \<Rightarrow> state \<Rightarrow> error + state" where
  "add_reaction m fgs s =
     (let reaction_key = ReactionKey (names_of s fgs)
      in case map_of custom_reactions reaction_key of
           Some rxn \<Rightarrow> call_custom m rxn fgs s
         | None \<Rightarrow>
             (let s1 = fold stage_fg fgs s;
                  bond = bond_order_of reaction_key
              in case fgs of
                   [fg1, fg2] \<Rightarrow>
                     (case (bonders (fg_heap s1 fg1), bonders (fg_heap s1 fg2)) of
                        (b1 # _, b2 # _) \<Rightarrow>
                          Inr (s1\<lparr>mol_bonds := mol_bonds s1 @ [Bond (AtomObj b1) (AtomObj b2) bond],
                                  bonds_made := bonds_made s1 + 1\<rparr>)
                      | _ \<Rightarrow> Inl IndexError)
                 | _ \<Rightarrow> Inl ValueError))"

text \<open>\<open>_periodic_custom_reactions = {}\<close>: a registry of its own, and empty.\<close>

definition periodic_custom_reactions ::
  "(reaction_key \<times> (api \<Rightarrow> int list \<Rightarrow> fgref list \<Rightarrow> state \<Rightarrow> error + state)) list" where
  "periodic_custom_reactions = []"

definition add_periodic_reaction :: "api \<Rightarrow> int list \<Rightarrow> fgref list \<Rightarrow> state \<Rightarrow> error + state" where
  "add_periodic_reaction m dir fgs s =
     (let s1 = fold stage_fg_periodic fgs s;
          reaction_key = ReactionKey (names_of s1 fgs)
      in case map_of periodic_custom_reactions reaction_key of
           Some rxn_fn \<Rightarrow> rxn_fn m dir fgs s1
         | None \<Rightarrow>
             (let bond = bond_order_of reaction_key
              in case fgs of
                   [fg1, fg2] \<Rightarrow>
                     (case (bonders (fg_heap s1 fg1), bonders (fg_heap s1 fg2)) of
                        (b1 # _, b2 # _) \<Rightarrow>
                          Inr (s1\<lparr>mol_bonds := mol_bonds s1 @
                                     [PeriodicBond (AtomObj b1) (AtomObj b2) bond dir],
                                  bonds_made := bonds_made s1 + 1\<rparr>)
                      | _ \<Rightarrow> Inl IndexError)
                 | _ \<Rightarrow> Inl ValueError))"

subsection \<open>\<open>finalize\<close>\<close>

text \<open>\<open>x.id\<close>: an attribute an \<open>Atom\<close> has and an \<open>int\<close> has not.\<close>

fun obj_id :: "pyobj \<Rightarrow> error + int" where
  "obj_id (AtomObj a) = Inr (atom_id a)"
| "obj_id (IntObj i) = Inl AttributeError"

text \<open>
  The filter condition
  \<open>bond.atom1.id not in self._deleter_ids and bond.atom2.id not in self._deleter_ids\<close>;
  \<open>and\<close> does not evaluate its right operand when the left one is false.
\<close>

definition keep_bond :: "int set \<Rightarrow> bond \<Rightarrow> error + bool" where
  "keep_bond d b =
     (case obj_id (atom1 b) of
        Inl e \<Rightarrow> Inl e
      | Inr i \<Rightarrow>
          if i \<in> d then Inr False
          else (case obj_id (atom2 b) of Inl e \<Rightarrow> Inl e | Inr j \<Rightarrow> Inr (j \<notin> d)))"

fun filter_bonds :: "int set \<Rightarrow> bond list \<Rightarrow> error + bond list" where
  "filter_bonds d [] = Inr []"
| "filter_bonds d (b # bs) =
     (case keep_bond d b of
        Inl e \<Rightarrow> Inl e
      | Inr k \<Rightarrow>
          (case filter_bonds d bs of
             Inl e \<Rightarrow> Inl e
           | Inr r \<Rightarrow> Inr (if k then b # r else r)))"

text \<open>\<open>[row for i, row in enumerate(matrix) if i not in self._deleter_ids]\<close>.\<close>

definition filter_rows :: "int set \<Rightarrow> 'a list \<Rightarrow> 'a list" where
  "filter_rows d rows = map snd (filter (\<lambda>(i, row). int i \<notin> d) (enumerate 0 rows))"

definition finalize :: "state \<Rightarrow> error + (int \<times> state)" where
  "finalize s =
     (let as = filter (\<lambda>a. atom_id a \<notin> deleter_ids s) (mol_atoms s)
      in case filter_bonds (deleter_ids s) (mol_bonds s) of
           Inl e \<Rightarrow> Inl e
         | Inr bs \<Rightarrow>
             Inr (bonds_made s,
                  s\<lparr>mol_atoms := as, mol_bonds := bs,
                    position_matrix := filter_rows (deleter_ids s) (position_matrix s)\<rparr>))"

subsection \<open>Sequences of reactor calls\<close>

text \<open>
  The topology calls \<open>add_reaction\<close> and \<open>add_periodic_reaction\<close> in some order and
  then \<open>finalize\<close>.  An exception is not caught by the reactor, so a run stops at the
  first one.
\<close>

datatype call = AddReaction "fgref list" | AddPeriodicReaction "int list" "fgref list"

fun step :: "api \<Rightarrow> call \<Rightarrow> state \<Rightarrow> error + state" where
  "step m (AddReaction fgs) s = add_reaction m fgs s"
| "step m (AddPeriodicReaction dir fgs) s = add_periodic_reaction m dir fgs s"

fun run :: "api \<Rightarrow> call list \<Rightarrow> state \<Rightarrow> error + state" where
  "run m [] s = Inr s"
| "run m (c # cs) s = (case step m c s of Inl e \<Rightarrow> Inl e | Inr s' \<Rightarrow> run m cs s')"

text \<open>
  The number of bonds one call contributes when it returns: what the procedure it
  dispatches to adds to \<open>_bonds_made\<close>.
\<close>

definition bonds_of_call :: "state \<Rightarrow> call \<Rightarrow> int" where
  "bonds_of_call s c =
     (case c of
        AddReaction fgs \<Rightarrow>
          (case map_of custom_reactions (ReactionKey (names_of s fgs)) of
             None \<Rightarrow> 1
           | Some Boronic_acid_with_diol \<Rightarrow> 2
           | Some (Diol_with_dihalogen dihalogen) \<Rightarrow> 2
           | Some Ring_amine_with_ring_amine \<Rightarrow> 12)
      | AddPeriodicReaction dir fgs \<Rightarrow> 1)"

text \<open>The end of a bond is an atom with the given id.\<close>

definition end_has_id :: "pyobj \<Rightarrow> int \<Rightarrow> bool" where
  "end_has_id x i = (case x of AtomObj a \<Rightarrow> atom_id a = i | IntObj j \<Rightarrow> False)"

section \<open>The functional group matcher (\<open>get_functional_groups\<close>)\<close>

text \<open>
  The registry \<open>fg_types\<close>.  The source's entries do not pass the \<open>name\<close> that
  \<open>FGType.__init__\<close> takes; each type is given the name it is registered under, which is
  the name \<open>Reactor.add_reaction\<close> reads through \<open>fg.fg_type.name\<close>.
\<close>

definition fg_types :: "(string \<times> FGType) list" where
  "fg_types =
     [
      (''amine'',
       FGType ''amine'' ''[N]([H])[H]''
         [Match ''[$([N]([H])[H])]'' 1]
         [Match ''[$([H][N][H])]'' 2]),
      (''aldehyde'',
       FGType ''aldehyde'' ''[C](=[O])[H]''
         [Match ''[$([C](=[O])[H])]'' 1]
         [Match ''[$([O]=[C][H])]'' 1]),
      (''carboxylic_acid'',
       FGType ''carboxylic_acid'' ''[C](=[O])[O][H]''
         [Match ''[$([C](=[O])[O][H])]'' 1]
         [Match ''[$([H][O][C](=[O]))]'' 1, Match ''[$([O]([H])[C](=[O]))]'' 1]),
      (''amide'',
       FGType ''amide'' ''[C](=[O])[N]([H])[H]''
         [Match ''[$([C](=[O])[N]([H])[H])]'' 1]
         [Match ''[$([N]([H])([H])[C](=[O]))]'' 1, Match ''[$([H][N]([H])[C](=[O]))]'' 2]),
      (''thioacid'',
       FGType ''thioacid'' ''[C](=[O])[S][H]''
         [Match ''[$([C](=[O])[S][H])]'' 1]
         [Match ''[$([H][S][C](=[O]))]'' 1, Match ''[$([S]([H])[C](=[O]))]'' 1]),
      (''alcohol'',
       FGType ''alcohol'' ''[O][H]''
         [Match ''[$([O][H])]'' 1]
         [Match ''[$([H][O])]'' 1]),
      (''thiol'',
       FGType ''thiol'' ''[S][H]''
         [Match ''[$([S][H])]'' 1]
         [Match ''[$([H][S])]'' 1]),
      (''bromine'',
       FGType ''bromine'' ''*[Br]''
         [Match ''[$(*[Br])]'' 1]
         [Match ''[$([Br]*)]'' 1]),
      (''iodine'',
       FGType ''iodine'' ''*[I]''
         [Match ''[$(*[I])]'' 1]
         [Match ''[$([I]*)]'' 1]),
      (''alkyne'',
       FGType ''alkyne'' ''[C]#[C][H]''
         [Match ''[$([C]([H])#[C])]'' 1]
         [Match ''[$([H][C]#[C])]'' 1]),
      (''terminal_alkene'',
       FGType ''terminal_alkene'' ''[C]=[C]([H])[H]''
         [Match ''[$([C]=[C]([H])[H])]'' 1]
         [Match ''[$([H][C]([H])=[C])]'' 2, Match ''[$([C](=[C])([H])[H])]'' 1]),
      (''boronic_acid'',
       FGType ''boronic_acid'' ''[B]([O][H])[O][H]''
         [Match ''[$([B]([O][H])[O][H])]'' 1]
         [Match ''[$([O]([H])[B][O][H])]'' 2, Match ''[$([H][O][B][O][H])]'' 2]),
      (''amine2'',
       FGType ''amine2'' ''[N]([H])[H]''
         [Match ''[$([N]([H])[H])]'' 1]
         [Match ''[$([H][N][H])]'' 1]),
      (''secondary_amine'',
       FGType ''secondary_amine'' ''[H][N]([#6])[#6]''
         [Match ''[$([N]([H])([#6])[#6])]'' 1]
         [Match ''[$([H][N]([#6])[#6])]'' 1]),
      (''diol'',
       FGType ''diol'' ''[H][O][#6]~[#6][O][H]''
         [Match ''[$([O]([H])[#6]~[#6][O][H])]'' 2]
         [Match ''[$([H][O][#6]~[#6][O][H])]'' 2]),
      (''difluorene'',
       FGType ''difluorene'' ''[F][#6]~[#6][F]''
         [Match ''[$([#6]([F])~[#6][F])]'' 2]
         [Match ''[$([F][#6]~[#6][F])]'' 2]),
      (''dibromine'',
       FGType ''dibromine'' ''[Br][#6]~[#6][Br]''
         [Match ''[$([#6]([Br])~[#6][Br])]'' 2]
         [Match ''[$([Br][#6]~[#6][Br])]'' 2]),
      (''alkyne2'',
       FGType ''alkyne2'' ''[C]#[C][H]''
         [Match ''[$([C]#[C][H])]'' 1]
         [Match ''[$([H][C]#[C])]'' 1, Match ''[$([C](#[C])[H])]'' 1]),
      (''ring_amine'',
       FGType ''ring_amine'' ''[N]([H])([H])[#6]~[#6]([H])~[#6R1]''
         [Match ''[$([N]([H])([H])[#6]~[#6]([H])~[#6R1])]'' 1, Match ''[$([#6]([H])(~[#6R1])~[#6][N]([H])[H])]'' 1]
         [Match ''[$([H][N]([H])[#6]~[#6]([H])~[#6R1])]'' 2, Match ''[$([H][#6](~[#6R1])~[#6][N]([H])[H])]'' 1])
     ]"

text \<open>\<open>fg_types[fg_name]\<close>: a dictionary subscript, which raises \<open>KeyError\<close> on a miss.\<close>

definition lookup_fg_type :: "string \<Rightarrow> error + FGType" where
  "lookup_fg_type fg_name =
     (case map_of fg_types fg_name of None \<Rightarrow> Inl (KeyError fg_name) | Some t \<Rightarrow> Inr t)"

text \<open>
  The molecule the matcher reads: its atom list and its bond list.  The substructure
  search of rdkit (\<open>to_rdkit_mol\<close>, \<open>SanitizeMol\<close>, \<open>MolFromSmarts\<close>,
  \<open>GetSubstructMatches\<close>) is a parameter \<open>gsm\<close>: a function of the molecule and the
  SMARTS string that returns the tuples of matched atom indices.
\<close>

record molecule =
  m_atoms :: "atom list"
  m_bonds :: "bond list"

text \<open>
  One pass of the loop over \<open>bonder_smarts\<close> (and, identically, over \<open>del_smarts\<close>):
  \<^verbatim>\<open>
  atoms = set(flatten(mol.GetSubstructMatches(query)))
  bonders = [[aid for aid in fg if aid in atoms] for fg in fg_atoms]
  for fg_id, fg in enumerate(bonders):
      bonder_atoms[fg_id].extend(fg[:match.n])
  \<close>
\<close>

definition role_step :: "(string \<Rightarrow> nat list list) \<Rightarrow> nat list list \<Rightarrow> Match \<Rightarrow> nat list list \<Rightarrow> nat list list" where
  "role_step q fg_atoms match acc =
     (let found = set (concat (q (smarts match)));
          grouped = map (filter (\<lambda>aid. aid \<in> found)) fg_atoms
      in map (\<lambda>(a, fg). a @ take (match_n match) fg) (zip acc grouped))"

definition role_atoms :: "(string \<Rightarrow> nat list list) \<Rightarrow> nat list list \<Rightarrow> Match list \<Rightarrow> nat list list" where
  "role_atoms q fg_atoms matches =
     fold (role_step q fg_atoms) matches (replicate (length fg_atoms) [])"

text \<open>\<open>tuple(self.atoms[id_] for id_ in ids)\<close>; an index past the end raises.\<close>

fun atoms_at :: "atom list \<Rightarrow> nat list \<Rightarrow> error + atom list" where
  "atoms_at as [] = Inr []"
| "atoms_at as (i # ids) =
     (if i < length as
      then (case atoms_at as ids of Inl e \<Rightarrow> Inl e | Inr r \<Rightarrow> Inr (as ! i # r))
      else Inl IndexError)"

definition make_fg :: "atom list \<Rightarrow> FGType \<Rightarrow> nat list \<Rightarrow> nat list \<Rightarrow> nat list \<Rightarrow> error + functional_group" where
  "make_fg as t fg bs ds =
     (case atoms_at as ds of Inl e \<Rightarrow> Inl e | Inr deleters' \<Rightarrow>
     (case atoms_at as fg of Inl e \<Rightarrow> Inl e | Inr atoms' \<Rightarrow>
     (case atoms_at as bs of Inl e \<Rightarrow> Inl e | Inr bonders' \<Rightarrow>
        Inr \<lparr>atoms = atoms', bonders = bonders', deleters = deleters', fg_type = t\<rparr>)))"

fun make_fgs :: "atom list \<Rightarrow> FGType \<Rightarrow> (nat list \<times> nat list \<times> nat list) list \<Rightarrow> error + functional_group list" where
  "make_fgs as t [] = Inr []"
| "make_fgs as t ((fg, bs, ds) # rest) =
     (case make_fg as t fg bs ds of Inl e \<Rightarrow> Inl e | Inr g \<Rightarrow>
     (case make_fgs as t rest of Inl e \<Rightarrow> Inl e | Inr gs \<Rightarrow> Inr (g # gs)))"

text \<open>The loop \<open>for fg_name in fg_names\<close>, with the accumulator \<open>func_groups\<close>.\<close>

fun fgs_of_names :: "(string \<Rightarrow> nat list list) \<Rightarrow> atom list \<Rightarrow> string list \<Rightarrow> functional_group list \<Rightarrow> error + functional_group list" where
  "fgs_of_names q as [] func_groups = Inr func_groups"
| "fgs_of_names q as (fg_name # rest) func_groups =
     (case lookup_fg_type fg_name of Inl e \<Rightarrow> Inl e | Inr t \<Rightarrow>
        (let fg_atoms = q (fg_smarts t);
             bonder_atoms = role_atoms q fg_atoms (bonder_smarts t);
             deleter_atoms = role_atoms q fg_atoms (del_smarts t)
         in case make_fgs as t (zip fg_atoms (zip bonder_atoms deleter_atoms)) of
              Inl e \<Rightarrow> Inl e
            | Inr new \<Rightarrow> fgs_of_names q as rest (func_groups @ new)))"

text \<open>
  \<open>get_functional_groups\<close>.  The body reads \<open>fg_names\<close>, \<open>self.to_rdkit_mol()\<close> and
  \<open>self.atoms\<close>, which belong to the molecule being searched and to the request; the
  model takes the molecule and the requested names as arguments, as the operation
  \<open>find_functional_groups(molecular_graph, requested_names)\<close> of the specification
  does.  The function returns the molecule beside its result: no statement of the body
  assigns to the molecule's atoms or bonds.
\<close>

definition get_functional_groups ::
  "(molecule \<Rightarrow> string \<Rightarrow> nat list list) \<Rightarrow> molecule \<Rightarrow> string list \<Rightarrow> (error + functional_group list) \<times> molecule" where
  "get_functional_groups gsm mol fg_names =
     (fgs_of_names (gsm mol) (m_atoms mol) (sort fg_names) [], mol)"

section \<open>Re-construction (\<open>ConstructedMolecule.add_conformer\<close>)\<close>

text \<open>
  The rdkit molecule behind \<open>self._mol\<close> is an object: \<open>original_mol = self._mol\<close> saves
  a reference, not a copy.  The model keeps rdkit molecules in a store and \<open>_mol\<close> as a
  reference into it.  Of an rdkit molecule only the conformers matter here: a list of
  (id, coordinates).  \<open>GetConformer()\<close> returns the first conformer and raises when
  there is none; \<open>AddConformer(conf, True)\<close> gives the conformer the id
  \<open>GetNumConformers()\<close>, appends it and returns that id.
\<close>

type_synonym rdmol = "(int \<times> vec list) list"

record cm_functional_group = functional_group +
  fg_id :: "int option"

record constructed_molecule =
  cm_mol :: nat
  rdkit_mols :: "nat \<Rightarrow> rdmol"
  func_groups :: "cm_functional_group list"
  cm_bonds_made :: int
  bb_counter :: "(nat \<times> nat) list"

text \<open>
  \<open>self.topology.construct(self, bb_conformers)\<close> belongs to the topology classes, which
  are not among the sources.  It is a parameter: given the molecule it returns the
  molecule as it left it and, when it raised, the exception.  The text of the error
  message is built from the topology and the building blocks and is a parameter too.
\<close>

type_synonym construct_fn = "constructed_molecule \<Rightarrow> int list \<Rightarrow> error option \<times> constructed_molecule"

definition set_ids :: "cm_functional_group list \<Rightarrow> cm_functional_group list" where
  "set_ids gs = map (\<lambda>(i, g). g\<lparr>fg_id := Some (int i)\<rparr>) (enumerate 0 gs)"

definition add_conformer ::
  "construct_fn \<Rightarrow> (constructed_molecule \<Rightarrow> int list \<Rightarrow> string) \<Rightarrow> int list \<Rightarrow> constructed_molecule
     \<Rightarrow> (error + int) \<times> constructed_molecule" where
  "add_conformer topology_construct errormsg bb_conformers self =
     (let original_mol = cm_mol self
      in case topology_construct self bb_conformers of
           (Some ex, self1) \<Rightarrow>
             (let self2 = self1\<lparr>cm_mol := original_mol\<rparr>
              in (Inl (ConstructionError (errormsg self2 bb_conformers) ex), self2))
         | (None, self1) \<Rightarrow>
             (let self2 = self1\<lparr>func_groups := set_ids (func_groups self1)\<rparr>
              in case rdkit_mols self2 (cm_mol self2) of
                   [] \<Rightarrow> (Inl ValueError, self2)
                 | conf # _ \<Rightarrow>
                     (let target = rdkit_mols self2 original_mol;
                          new_id = int (length target)
                      in (Inr new_id,
                          self2\<lparr>rdkit_mols := (rdkit_mols self2)(original_mol := target @ [(new_id, snd conf)]),
                                cm_mol := original_mol\<rparr>))))"

section \<open>Key equality\<close>

lemma fst_set_counter_add: "fst ` set (counter_add k c) = insert k (fst ` set c)"
proof (induction c)
  case Nil
  then show ?case by simp
next
  case (Cons p c)
  obtain k' n where p: "p = (k', n)" by (cases p)
  show ?case
  proof (cases "k = k'")
    case True
    then show ?thesis by (simp add: p)
  next
    case False
    then show ?thesis using Cons.IH by (simp add: p insert_commute)
  qed
qed

lemma counter_add_distinct:
  "distinct (map fst c) \<Longrightarrow> distinct (map fst (counter_add k c))"
proof (induction c)
  case Nil
  then show ?case by simp
next
  case (Cons p c)
  obtain k' n where p: "p = (k', n)" by (cases p)
  from Cons have "k' \<notin> fst ` set c" and "distinct (map fst (counter_add k c))"
    by (simp_all add: p)
  then show ?case
    using Cons.prems by (simp add: p fst_set_counter_add)
qed

lemma counter_add_pos:
  "\<forall>p \<in> set c. 0 < snd p \<Longrightarrow> \<forall>p \<in> set (counter_add k c). 0 < snd p"
proof (induction c)
  case Nil
  then show ?case by simp
next
  case (Cons p c)
  obtain k' n where p: "p = (k', n)" by (cases p)
  from Cons.prems have n: "0 < n" and rest: "\<forall>p \<in> set c. 0 < snd p"
    by (simp_all add: p)
  show ?case
  proof (cases "k = k'")
    case True
    then show ?thesis using rest by (simp add: p)
  next
    case False
    then show ?thesis using n Cons.IH [OF rest] by (simp add: p)
  qed
qed

lemma counter_add_inv: "counter_inv c \<Longrightarrow> counter_inv (counter_add k c)"
proof -
  assume "counter_inv c"
  then have d: "distinct (map fst c)" and p: "\<forall>p \<in> set c. 0 < snd p"
    by (simp_all add: counter_inv_def)
  show ?thesis
    unfolding counter_inv_def
    using counter_add_distinct [OF d, of k] counter_add_pos [OF p, of k] by (rule conjI)
qed

lemma cnt_counter_add: "cnt (counter_add k c) k' = (if k' = k then cnt c k + 1 else cnt c k')"
  by (induction c) (auto simp: cnt_def)

lemma fold_counter_add_inv: "counter_inv c \<Longrightarrow> counter_inv (fold counter_add xs c)"
  by (induction xs arbitrary: c) (auto simp: counter_add_inv)

lemma cnt_fold_counter_add: "cnt (fold counter_add xs c) k = cnt c k + count (mset xs) k"
  by (induction xs arbitrary: c) (auto simp: cnt_counter_add)

lemma cnt_Nil: "cnt [] k = 0"
  by (simp add: cnt_def)

lemma Counter_inv: "counter_inv (Counter xs)"
  unfolding Counter_def by (rule fold_counter_add_inv) (simp add: counter_inv_def)

lemma cnt_Counter: "cnt (Counter xs) k = count (mset xs) k"
  unfolding Counter_def by (simp add: cnt_fold_counter_add cnt_Nil)

lemma counter_inv_mem: "counter_inv c \<Longrightarrow> (k, n) \<in> set c \<longleftrightarrow> 0 < n \<and> cnt c k = n"
proof -
  assume inv: "counter_inv c"
  then have d: "distinct (map fst c)" by (simp add: counter_inv_def)
  show ?thesis
  proof
    assume m: "(k, n) \<in> set c"
    with inv have "0 < n" by (auto simp: counter_inv_def)
    moreover from m d have "map_of c k = Some n" by simp
    ultimately show "0 < n \<and> cnt c k = n" by (simp add: cnt_def)
  next
    assume "0 < n \<and> cnt c k = n"
    then have "map_of c k = Some n" by (auto simp: cnt_def split: option.splits)
    then show "(k, n) \<in> set c" by (rule map_of_SomeD)
  qed
qed

lemma set_Counter: "(k, n) \<in> set (Counter xs) \<longleftrightarrow> 0 < n \<and> count (mset xs) k = n"
  using counter_inv_mem [OF Counter_inv, of k n xs] by (simp add: cnt_Counter)

lemma distinct_Counter: "distinct (Counter xs)"
  using Counter_inv [of xs] by (auto simp: counter_inv_def dest: distinct_map [THEN iffD1])

lemma Counter_set_eq_iff: "set (Counter xs) = set (Counter ys) \<longleftrightarrow> mset xs = mset ys"
proof
  assume eq: "set (Counter xs) = set (Counter ys)"
  show "mset xs = mset ys"
  proof (rule multiset_eqI)
    fix k
    show "count (mset xs) k = count (mset ys) k"
    proof (cases "count (mset xs) k = 0")
      case True
      show ?thesis
      proof (rule ccontr)
        assume "count (mset xs) k \<noteq> count (mset ys) k"
        with True have "0 < count (mset ys) k" by linarith
        then have "(k, count (mset ys) k) \<in> set (Counter ys)" unfolding set_Counter by blast
        with eq have "(k, count (mset ys) k) \<in> set (Counter xs)" by simp
        then have "0 < count (mset ys) k \<and> count (mset xs) k = count (mset ys) k"
          unfolding set_Counter .
        then show False using True by linarith
      qed
    next
      case False
      then have "0 < count (mset xs) k" by linarith
      then have "(k, count (mset xs) k) \<in> set (Counter xs)" unfolding set_Counter by blast
      with eq have "(k, count (mset xs) k) \<in> set (Counter ys)" by simp
      then have "0 < count (mset xs) k \<and> count (mset ys) k = count (mset xs) k"
        unfolding set_Counter .
      then show ?thesis by linarith
    qed
  qed
next
  assume "mset xs = mset ys"
  then have "\<And>k n. (k, n) \<in> set (Counter xs) \<longleftrightarrow> (k, n) \<in> set (Counter ys)"
    by (simp add: set_Counter)
  then show "set (Counter xs) = set (Counter ys)"
    by auto
qed

lemma sort_eq_iff_mset: "sort (xs :: 'a :: linorder list) = sort ys \<longleftrightarrow> mset xs = mset ys"
proof
  assume "sort xs = sort ys"
  then have "mset (sort xs) = mset (sort ys)" by simp
  then show "mset xs = mset ys" by simp
next
  assume "mset xs = mset ys"
  then show "sort xs = sort ys"
    by (metis mset_sort sorted_sort properties_for_sort)
qed

lemma ReactionKey_eq_mset: "ReactionKey xs = ReactionKey ys \<longleftrightarrow> mset xs = mset ys"
  unfolding ReactionKey_def sort_eq_iff_mset
  using set_eq_iff_mset_eq_distinct [OF distinct_Counter distinct_Counter, of xs ys]
  by (simp add: Counter_set_eq_iff)

text \<open>
  Claim C3.  Two reaction keys are equal exactly when the sequences of functional-group
  names they were built from are equal as multisets.  In particular the key of
  (amine, aldehyde, amine) equals the keys of (amine, amine, aldehyde) and of
  (aldehyde, amine, amine), and the key of (amine, aldehyde) differs from the key of
  (amine, aldehyde, amine).
\<close>

theorem ReactionKey_eq_iff_permutation:
  "(ReactionKey xs = ReactionKey ys \<longleftrightarrow> mset xs = mset ys)
   \<and> ReactionKey [''amine'', ''aldehyde'', ''amine''] = ReactionKey [''amine'', ''amine'', ''aldehyde'']
   \<and> ReactionKey [''amine'', ''aldehyde'', ''amine''] = ReactionKey [''aldehyde'', ''amine'', ''amine'']
   \<and> ReactionKey [''amine'', ''aldehyde''] \<noteq> ReactionKey [''amine'', ''aldehyde'', ''amine'']"
  by (simp add: ReactionKey_eq_mset)

end
